theory Spec2Isabelle
  imports Complex_Main
begin

section \<open>Data model\<close>

text \<open>
  A blur region is the six-tuple \<open>(x1, y1, x2, y2, sigma, ksize)\<close> that the Python code
  stores in its per-frame lists; a detected box is \<open>(x1, y1, x2, y2)\<close>.  Frame indices,
  coordinates and blur parameters are Python integers.  A frame is a grid of pixel values
  (rows of pixels); a pixel value stands for one BGR triple.
\<close>

type_synonym region = "int \<times> int \<times> int \<times> int \<times> int \<times> int"
type_synonym box = "int \<times> int \<times> int \<times> int"
type_synonym pixel = nat
type_synonym frame = "pixel list list"

text \<open>
  Exceptions that can leave a function of the program.  None of them is raised by the
  program's own code; they come from the libraries it calls: the face detector, the
  Gaussian blur, a slice assignment of mismatching shape, a read of an attribute that was
  never set, and the progress callback.
\<close>

datatype exn = DetectorError | BlurError | ValueError | AttributeError | CallbackError

datatype 'a result = Return 'a | Raise exn

subsection \<open>The collaborators\<close>

text \<open>
  \<open>cv2.VideoCapture\<close>: whether the source is open, the metadata it reports, the frame it
  decodes at each position (\<open>None\<close> where \<open>read()\<close> fails) and its read cursor.
\<close>

record capture =
  cap_opened :: bool
  cap_frame_count :: int
  cap_fps :: real
  cap_width :: int
  cap_height :: int
  cap_frames :: "int \<Rightarrow> frame option"
  cap_pos :: int

text \<open>
  \<open>cv2.VideoWriter\<close>: whether the sink opened, the frames handed to \<open>write()\<close> in
  order, and whether \<open>release()\<close> has been called.  A \<open>write()\<close> on a sink that did not open
  raises nothing and encodes nothing; \<open>vw_written\<close> is the list of frames passed to
  \<open>write()\<close>, encoded or not.
\<close>

record video_writer =
  vw_opened :: bool
  vw_written :: "frame list"
  vw_released :: bool

text \<open>
  The behaviour of the libraries the program calls:
  \<open>detect\<close> is \<open>FaceDetector.detect_faces\<close> (its \<open>boxes\<close> result, \<open>None\<close> when no face passes
  the threshold), \<open>gaussian_blur\<close> is \<open>cv2.GaussianBlur(region, (ksize, ksize), sigma)\<close>,
  \<open>video_capture\<close> is \<open>cv2.VideoCapture(path)\<close>, \<open>writer_opens\<close> tells whether
  \<open>cv2.VideoWriter(path, fourcc, fps, (width, height))\<close> opens its sink, and \<open>annotate\<close> is
  the pair of \<open>cv2.rectangle\<close>/\<open>cv2.putText\<close> calls that outline one region (\<open>True\<close> for an
  automatic region, \<open>False\<close> for a manual one).
\<close>

record env =
  detect :: "frame \<Rightarrow> exn + box list option"
  gaussian_blur :: "frame \<Rightarrow> int \<Rightarrow> int \<Rightarrow> exn + frame"
  video_capture :: "string \<Rightarrow> capture"
  writer_opens :: "string \<Rightarrow> real \<Rightarrow> int \<times> int \<Rightarrow> bool"
  annotate :: "bool \<Rightarrow> region \<Rightarrow> frame \<Rightarrow> frame"

subsection \<open>Array slices\<close>

text \<open>
  \<open>a[lo:hi]\<close> on a sequence of length \<open>n\<close>: a negative bound counts from the end, and
  every bound is clipped to \<open>0..n\<close>.
\<close>

definition slice_index :: "int \<Rightarrow> nat \<Rightarrow> nat" where
  "slice_index i n = (if i < 0 then nat (max 0 (i + int n)) else min (nat i) n)"

definition py_slice :: "int \<Rightarrow> int \<Rightarrow> 'a list \<Rightarrow> 'a list" where
  "py_slice lo hi xs =
     (let a = slice_index lo (length xs); b = slice_index hi (length xs)
      in take (b - a) (drop a xs))"

text \<open>\<open>result[y1:y2, x1:x2]\<close>, read.\<close>

definition get_slice :: "frame \<Rightarrow> int \<Rightarrow> int \<Rightarrow> int \<Rightarrow> int \<Rightarrow> frame" where
  "get_slice fr y1 y2 x1 x2 = map (py_slice x1 x2) (py_slice y1 y2 fr)"

definition set_row :: "int \<Rightarrow> int \<Rightarrow> pixel list \<Rightarrow> pixel list \<Rightarrow> pixel list" where
  "set_row x1 x2 row new =
     (let c = slice_index x1 (length row); d = slice_index x2 (length row)
      in take c row @ new @ drop (max c d) row)"

text \<open>
  \<open>result[y1:y2, x1:x2] = blurred\<close>: the assignment needs a value of the slice's shape
  and raises \<open>ValueError\<close> otherwise.  \<open>cv2.GaussianBlur\<close> returns an image of the size of
  its input, so the program itself never reaches the error.
\<close>

definition set_slice :: "frame \<Rightarrow> int \<Rightarrow> int \<Rightarrow> int \<Rightarrow> int \<Rightarrow> frame \<Rightarrow> frame result" where
  "set_slice fr y1 y2 x1 x2 v =
     (if map length v \<noteq> map length (get_slice fr y1 y2 x1 x2) then Raise ValueError
      else
        (let a = slice_index y1 (length fr); b = slice_index y2 (length fr)
         in Return (take a fr
                    @ map (\<lambda>(row, new). set_row x1 x2 row new) (zip (take (b - a) (drop a fr)) v)
                    @ drop (max a b) fr)))"

section \<open>BlurManager\<close>

record blur_manager =
  blur_regions :: "region list"
  manual_regions :: "int \<rightharpoonup> region list"
  detected_regions :: "int \<rightharpoonup> region list"
  all_blurred :: bool
  default_sigma :: int
  default_ksize :: int
  blurred_face_indices :: "int set"
  bm_current_frame_idx :: int

text \<open>\<open>BlurManager.__init__\<close>\<close>

definition init_blur_manager :: blur_manager where
  "init_blur_manager =
     \<lparr>blur_regions = [], manual_regions = Map.empty, detected_regions = Map.empty,
      all_blurred = True, default_sigma = 30, default_ksize = 31,
      blurred_face_indices = {}, bm_current_frame_idx = 0\<rparr>"

text \<open>\<open>BlurManager.reset\<close>; the defaults and the current frame index are not touched.\<close>

definition reset :: "blur_manager \<Rightarrow> blur_manager" where
  "reset bm =
     bm\<lparr>blur_regions := [], manual_regions := Map.empty, detected_regions := Map.empty,
        all_blurred := True, blurred_face_indices := {}\<rparr>"

text \<open>The list stored under a key, for a key that is known to be present.\<close>

definition regions_at :: "(int \<rightharpoonup> region list) \<Rightarrow> int \<Rightarrow> region list" where
  "regions_at m idx = (case m idx of None \<Rightarrow> [] | Some rs \<Rightarrow> rs)"

text \<open>
  \<open>BlurManager.add_manual_region_to_frame\<close>: create the list if the key is missing, then
  append the tuple as given.
\<close>

definition add_manual_region_to_frame ::
  "int \<Rightarrow> int \<Rightarrow> int \<Rightarrow> int \<Rightarrow> int \<Rightarrow> int \<Rightarrow> int \<Rightarrow> blur_manager \<Rightarrow> blur_manager" where
  "add_manual_region_to_frame frame_idx x1 y1 x2 y2 sigma ksize bm =
     (let m = (if manual_regions bm frame_idx = None
               then (manual_regions bm)(frame_idx \<mapsto> [])
               else manual_regions bm)
      in bm\<lparr>manual_regions := m(frame_idx \<mapsto> regions_at m frame_idx @ [(x1, y1, x2, y2, sigma, ksize)])\<rparr>)"

text \<open>The tuple rebuilt by \<open>update_blur_params\<close>: same corners, new parameters.\<close>

definition restamp :: "int \<Rightarrow> int \<Rightarrow> region \<Rightarrow> region" where
  "restamp sigma ksize r = (case r of (x1, y1, x2, y2, _, _) \<Rightarrow> (x1, y1, x2, y2, sigma, ksize))"

text \<open>
  \<open>BlurManager.update_blur_params\<close>: sets the defaults, rewrites every entry of the flat
  list \<open>blur_regions\<close> and every entry of every list of \<open>manual_regions\<close>.  There is no
  loop over \<open>detected_regions\<close>.
\<close>

definition update_blur_params :: "int \<Rightarrow> int \<Rightarrow> blur_manager \<Rightarrow> blur_manager" where
  "update_blur_params sigma ksize bm =
     bm\<lparr>default_sigma := sigma, default_ksize := ksize,
        blur_regions := map (restamp sigma ksize) (blur_regions bm),
        manual_regions := (\<lambda>frame_idx. map_option (map (restamp sigma ksize)) (manual_regions bm frame_idx))\<rparr>"

text \<open>
  The inner loop of \<open>copy_regions_to_next_frame\<close>: each region of the source list, in
  order, is appended to the target list unless an equal tuple is already there.
\<close>

fun append_missing :: "region list \<Rightarrow> region list \<Rightarrow> region list" where
  "append_missing [] target = target"
| "append_missing (r # rs) target =
     append_missing rs (if r \<in> set target then target else target @ [r])"

text \<open>\<open>idx in m and len(m[idx]) > 0\<close>\<close>

definition has_regions :: "(int \<rightharpoonup> region list) \<Rightarrow> int \<Rightarrow> bool" where
  "has_regions m idx = (case m idx of None \<Rightarrow> False | Some rs \<Rightarrow> length rs > 0)"

definition copy_into :: "(int \<rightharpoonup> region list) \<Rightarrow> int \<Rightarrow> int \<Rightarrow> (int \<rightharpoonup> region list)" where
  "copy_into m cur nxt =
     (let m1 = (if m nxt = None then m(nxt \<mapsto> []) else m)
      in m1(nxt \<mapsto> append_missing (regions_at m1 cur) (regions_at m1 nxt)))"

text \<open>\<open>BlurManager.copy_regions_to_next_frame\<close>, from the manager's current frame.\<close>

definition copy_regions_to_next_frame :: "blur_manager \<Rightarrow> bool \<times> blur_manager" where
  "copy_regions_to_next_frame bm =
     (let cur = bm_current_frame_idx bm;
          next_frame_idx = cur + 1;
          has_manual = has_regions (manual_regions bm) cur;
          has_detected = has_regions (detected_regions bm) cur
      in if \<not> (has_manual \<or> has_detected) then (False, bm)
         else
           (let bm1 = (if has_manual
                       then bm\<lparr>manual_regions := copy_into (manual_regions bm) cur next_frame_idx\<rparr>
                       else bm);
                bm2 = (if has_detected
                       then bm1\<lparr>detected_regions := copy_into (detected_regions bm1) cur next_frame_idx\<rparr>
                       else bm1)
            in (True, bm2)))"

subsection \<open>The compositor\<close>

text \<open>\<open>ksize if ksize % 2 == 1 else ksize + 1\<close>; Python's \<open>%\<close> with a positive modulus is \<open>mod\<close>.\<close>

definition odd_ksize :: "int \<Rightarrow> int" where
  "odd_ksize ksize = (if ksize mod 2 = 1 then ksize else ksize + 1)"

text \<open>
  The body of each loop of \<open>apply_blur\<close>: read the slice, blur it, write the blurred
  slice back into \<open>result\<close>.
\<close>

definition blur_region :: "env \<Rightarrow> region \<Rightarrow> frame \<Rightarrow> frame result" where
  "blur_region e r result =
     (case r of (x1, y1, x2, y2, sigma, ksize) \<Rightarrow>
        (let ksize' = odd_ksize ksize;
             region = get_slice result y1 y2 x1 x2
         in case gaussian_blur e region ksize' sigma of
              Inl ex \<Rightarrow> Raise ex
            | Inr blurred \<Rightarrow> set_slice result y1 y2 x1 x2 blurred))"

text \<open>One \<open>for\<close> loop of \<open>apply_blur\<close> over a list of regions; an exception ends it.\<close>

fun blur_loop :: "env \<Rightarrow> region list \<Rightarrow> frame \<Rightarrow> frame result" where
  "blur_loop e [] result = Return result"
| "blur_loop e (r # rs) result =
     (case blur_region e r result of
        Raise ex \<Rightarrow> Raise ex
      | Return result' \<Rightarrow> blur_loop e rs result')"

text \<open>\<open>idx in m\<close> for an optional index: \<open>None in m\<close> is false.\<close>

definition lookup_idx :: "(int \<rightharpoonup> region list) \<Rightarrow> int option \<Rightarrow> region list option" where
  "lookup_idx m frame_idx = (case frame_idx of None \<Rightarrow> None | Some i \<Rightarrow> m i)"

text \<open>
  \<open>BlurManager.apply_blur\<close> on frame values.  The result frame is a copy; the manager's
  current frame index is set when an index is given; \<open>detected_faces\<close> is not read.
\<close>

definition apply_blur ::
  "env \<Rightarrow> frame \<Rightarrow> box list option \<Rightarrow> int option \<Rightarrow> blur_manager \<Rightarrow> frame result \<times> blur_manager" where
  "apply_blur e frame detected_faces frame_idx bm =
     (let result = frame;
          bm1 = (case frame_idx of None \<Rightarrow> bm | Some i \<Rightarrow> bm\<lparr>bm_current_frame_idx := i\<rparr>);
          r1 = (case lookup_idx (detected_regions bm1) frame_idx of
                  None \<Rightarrow> Return result
                | Some rs \<Rightarrow> blur_loop e rs result)
      in case r1 of
           Raise ex \<Rightarrow> (Raise ex, bm1)
         | Return result1 \<Rightarrow>
             (case frame_idx of
                None \<Rightarrow> (Return result1, bm1)
              | Some i \<Rightarrow>
                  (case manual_regions bm1 i of
                     None \<Rightarrow> (Return result1, bm1)
                   | Some rs \<Rightarrow> (blur_loop e rs result1, bm1))))"

subsection \<open>The compositor on a store of arrays\<close>

text \<open>
  To say which array an operation writes to, arrays live in a store: \<open>cells\<close> gives the
  contents at each address and the addresses below \<open>next_free\<close> are the allocated ones.
  \<open>frame.copy()\<close> and the library calls that return a new array allocate at \<open>next_free\<close>;
  a slice assignment overwrites the contents at the address of \<open>result\<close>.
\<close>

record store =
  cells :: "nat \<Rightarrow> frame"
  next_free :: nat

definition alloc :: "frame \<Rightarrow> store \<Rightarrow> nat \<times> store" where
  "alloc v st = (next_free st, st\<lparr>cells := (cells st)(next_free st := v), next_free := Suc (next_free st)\<rparr>)"

text \<open>
  The loop body on the store: \<open>region\<close> is a view of the array at \<open>res\<close>, \<open>blurred\<close> is a
  new array, and the assignment writes into the array at \<open>res\<close>.
\<close>

definition blur_region_at :: "env \<Rightarrow> region \<Rightarrow> nat \<Rightarrow> store \<Rightarrow> unit result \<times> store" where
  "blur_region_at e r res st =
     (case r of (x1, y1, x2, y2, sigma, ksize) \<Rightarrow>
        (let ksize' = odd_ksize ksize;
             region = get_slice (cells st res) y1 y2 x1 x2
         in case gaussian_blur e region ksize' sigma of
              Inl ex \<Rightarrow> (Raise ex, st)
            | Inr blurred_v \<Rightarrow>
                (let (blurred, st1) = alloc blurred_v st
                 in case set_slice (cells st1 res) y1 y2 x1 x2 (cells st1 blurred) of
                      Raise ex \<Rightarrow> (Raise ex, st1)
                    | Return v \<Rightarrow> (Return (), st1\<lparr>cells := (cells st1)(res := v)\<rparr>))))"

fun blur_loop_at :: "env \<Rightarrow> region list \<Rightarrow> nat \<Rightarrow> store \<Rightarrow> unit result \<times> store" where
  "blur_loop_at e [] res st = (Return (), st)"
| "blur_loop_at e (r # rs) res st =
     (case blur_region_at e r res st of
        (Raise ex, st1) \<Rightarrow> (Raise ex, st1)
      | (Return u, st1) \<Rightarrow> blur_loop_at e rs res st1)"

text \<open>
  \<open>BlurManager.apply_blur\<close> with \<open>frame\<close> given by its address; the value returned is the
  address of \<open>result\<close>.
\<close>

definition apply_blur_at ::
  "env \<Rightarrow> nat \<Rightarrow> box list option \<Rightarrow> int option \<Rightarrow> blur_manager \<Rightarrow> store
     \<Rightarrow> nat result \<times> blur_manager \<times> store" where
  "apply_blur_at e frame detected_faces frame_idx bm st =
     (let (result, st0) = alloc (cells st frame) st;
          bm1 = (case frame_idx of None \<Rightarrow> bm | Some i \<Rightarrow> bm\<lparr>bm_current_frame_idx := i\<rparr>);
          (r1, st1) = (case lookup_idx (detected_regions bm1) frame_idx of
                         None \<Rightarrow> (Return (), st0)
                       | Some rs \<Rightarrow> blur_loop_at e rs result st0)
      in case r1 of
           Raise ex \<Rightarrow> (Raise ex, bm1, st1)
         | Return u \<Rightarrow>
             (case frame_idx of
                None \<Rightarrow> (Return result, bm1, st1)
              | Some i \<Rightarrow>
                  (case manual_regions bm1 i of
                     None \<Rightarrow> (Return result, bm1, st1)
                   | Some rs \<Rightarrow>
                       (case blur_loop_at e rs result st1 of
                          (Raise ex, st2) \<Rightarrow> (Raise ex, bm1, st2)
                        | (Return u', st2) \<Rightarrow> (Return result, bm1, st2)))))"

section \<open>VideoProcessor\<close>

text \<open>
  The fields of the Python object.  \<open>fps\<close>, \<open>width\<close> and \<open>height\<close> are attributes that
  exist only once \<open>open_video\<close> has set them (\<open>None\<close> before).  \<open>detection_results\<close> maps a
  frame index to the detector's boxes, which may be Python's \<open>None\<close>: a stored \<open>None\<close> is
  \<open>Some None\<close>, a missing key is \<open>None\<close>.  \<open>detector_calls\<close> is not a field of the object: it
  lists the frames on which \<open>face_detector.detect_faces\<close> has been called, in order.
\<close>

record video_processor =
  blur_manager :: blur_manager
  cap :: "capture option"
  frame_count :: int
  current_frame_idx :: int
  current_frame :: "frame option"
  detected_faces :: "box list option"
  processed_frames :: "int \<rightharpoonup> frame"
  detection_results :: "int \<rightharpoonup> box list option"
  detect_faces :: bool
  fps :: "real option"
  width :: "int option"
  height :: "int option"
  detector_calls :: "frame list"

text \<open>\<open>VideoProcessor.__init__\<close>\<close>

definition init_video_processor :: "blur_manager \<Rightarrow> video_processor" where
  "init_video_processor bm =
     \<lparr>blur_manager = bm, cap = None, frame_count = 0, current_frame_idx = 0,
      current_frame = None, detected_faces = None, processed_frames = Map.empty,
      detection_results = Map.empty, detect_faces = True,
      fps = None, width = None, height = None, detector_calls = []\<rparr>"

text \<open>\<open>cap.read()\<close>: the frame at the cursor, which then moves on; nothing on a failure.\<close>

definition cap_read :: "capture \<Rightarrow> frame option \<times> capture" where
  "cap_read c =
     (if cap_opened c
      then (case cap_frames c (cap_pos c) of
              None \<Rightarrow> (None, c)
            | Some frame \<Rightarrow> (Some frame, c\<lparr>cap_pos := cap_pos c + 1\<rparr>))
      else (None, c))"

text \<open>\<open>cap.set(cv2.CAP_PROP_POS_FRAMES, frame_idx)\<close>\<close>

definition cap_set_pos :: "int \<Rightarrow> capture \<Rightarrow> capture" where
  "cap_set_pos frame_idx c = (if cap_opened c then c\<lparr>cap_pos := frame_idx\<rparr> else c)"

text \<open>
  The call \<open>self.face_detector.detect_faces(frame)\<close> followed by the two assignments that
  \<open>open_video\<close> and \<open>get_frame\<close> make from its result.
\<close>

definition run_detector :: "env \<Rightarrow> frame \<Rightarrow> int \<Rightarrow> video_processor \<Rightarrow> unit result \<times> video_processor" where
  "run_detector e frame frame_idx vp =
     (let vp1 = vp\<lparr>detector_calls := detector_calls vp @ [frame]\<rparr>
      in case detect e frame of
           Inl ex \<Rightarrow> (Raise ex, vp1)
         | Inr boxes \<Rightarrow>
             (Return (), vp1\<lparr>detection_results := (detection_results vp1)(frame_idx \<mapsto> boxes),
                             detected_faces := boxes\<rparr>))"

text \<open>
  \<open>VideoProcessor.open_video\<close>.  The capture is assigned before it is tested.  The two
  caches of the processor are emptied; the manager's region maps are not touched.
\<close>

definition open_video :: "env \<Rightarrow> string \<Rightarrow> video_processor \<Rightarrow> bool result \<times> video_processor" where
  "open_video e video_path vp =
     (let c = video_capture e video_path;
          vp0 = vp\<lparr>cap := Some c\<rparr>
      in if \<not> cap_opened c then (Return False, vp0)
         else
           (let vp1 = vp0\<lparr>frame_count := cap_frame_count c, fps := Some (cap_fps c),
                          width := Some (cap_width c), height := Some (cap_height c),
                          current_frame_idx := 0, processed_frames := Map.empty,
                          detection_results := Map.empty, detected_faces := None\<rparr>
            in case cap_read c of
                 (None, c1) \<Rightarrow> (Return True, vp1\<lparr>cap := Some c1\<rparr>)
               | (Some frame, c1) \<Rightarrow>
                   (let vp2 = vp1\<lparr>cap := Some c1, current_frame := Some frame,
                                  current_frame_idx := 0,
                                  blur_manager := (blur_manager vp1)\<lparr>bm_current_frame_idx := 0\<rparr>\<rparr>
                    in if detect_faces vp2
                       then (case run_detector e frame 0 vp2 of
                               (Raise ex, vp3) \<Rightarrow> (Raise ex, vp3)
                             | (Return u, vp3) \<Rightarrow> (Return True, vp3))
                       else (Return True, vp2))))"

text \<open>\<open>VideoProcessor.get_frame\<close>\<close>

definition get_frame :: "env \<Rightarrow> int \<Rightarrow> video_processor \<Rightarrow> frame option result \<times> video_processor" where
  "get_frame e frame_idx vp =
     (case cap vp of
        None \<Rightarrow> (Return None, vp)
      | Some c \<Rightarrow>
          if frame_idx < 0 \<or> frame_idx \<ge> frame_count vp then (Return None, vp)
          else
            (case cap_read (cap_set_pos frame_idx c) of
               (None, c1) \<Rightarrow> (Return None, vp\<lparr>cap := Some c1\<rparr>)
             | (Some frame, c1) \<Rightarrow>
                 (let vp1 = vp\<lparr>cap := Some c1, current_frame := Some frame,
                                current_frame_idx := frame_idx,
                                blur_manager := (blur_manager vp)\<lparr>bm_current_frame_idx := frame_idx\<rparr>\<rparr>
                  in case detection_results vp1 frame_idx of
                       Some cached \<Rightarrow> (Return (Some frame), vp1\<lparr>detected_faces := cached\<rparr>)
                     | None \<Rightarrow>
                         if detect_faces vp1
                         then (case run_detector e frame frame_idx vp1 of
                                 (Raise ex, vp2) \<Rightarrow> (Raise ex, vp2)
                               | (Return u, vp2) \<Rightarrow> (Return (Some frame), vp2))
                         else (Return (Some frame), vp1\<lparr>detected_faces := None\<rparr>))))"

text \<open>
  The first part of \<open>process_current_frame\<close>: when there are detections and the frame has
  no automatic-region list yet, one region per box, stamped with the current defaults.
\<close>

definition stamp :: "blur_manager \<Rightarrow> box \<Rightarrow> region" where
  "stamp bm b = (case b of (x1, y1, x2, y2) \<Rightarrow> (x1, y1, x2, y2, default_sigma bm, default_ksize bm))"

definition materialize :: "video_processor \<Rightarrow> video_processor" where
  "materialize vp =
     (case detected_faces vp of
        None \<Rightarrow> vp
      | Some boxes \<Rightarrow>
          (let bm = blur_manager vp; idx = current_frame_idx vp
           in if detected_regions bm idx = None
              then vp\<lparr>blur_manager := bm\<lparr>detected_regions := (detected_regions bm)(idx \<mapsto> map (stamp bm) boxes)\<rparr>\<rparr>
              else vp))"

text \<open>\<open>VideoProcessor.process_current_frame\<close>\<close>

definition process_current_frame :: "env \<Rightarrow> video_processor \<Rightarrow> frame option result \<times> video_processor" where
  "process_current_frame e vp =
     (case current_frame vp of
        None \<Rightarrow> (Return None, vp)
      | Some frame \<Rightarrow>
          (case processed_frames vp (current_frame_idx vp) of
             Some cached \<Rightarrow> (Return (Some cached), vp)
           | None \<Rightarrow>
               (let vp1 = materialize vp;
                    idx = current_frame_idx vp1;
                    (r, bm1) = apply_blur e frame (detected_faces vp1) (Some idx) (blur_manager vp1);
                    vp2 = vp1\<lparr>blur_manager := bm1\<rparr>
                in case r of
                     Raise ex \<Rightarrow> (Raise ex, vp2)
                   | Return processed_frame \<Rightarrow>
                       (let p1 = fold (annotate e True) (regions_at (detected_regions bm1) idx) processed_frame;
                            p2 = fold (annotate e False) (regions_at (manual_regions bm1) idx) p1
                        in (Return (Some p2), vp2\<lparr>processed_frames := (processed_frames vp2)(idx \<mapsto> p2)\<rparr>)))))"

text \<open>\<open>out.write(processed)\<close> and \<open>out.release()\<close>\<close>

definition vw_write :: "frame \<Rightarrow> video_writer \<Rightarrow> video_writer" where
  "vw_write fr out = out\<lparr>vw_written := vw_written out @ [fr]\<rparr>"

definition vw_release :: "video_writer \<Rightarrow> video_writer" where
  "vw_release out = out\<lparr>vw_released := True\<rparr>"

text \<open>
  A progress callback either returns or raises: \<open>cb current total = Some ex\<close> when the
  call raises \<open>ex\<close>.
\<close>

type_synonym callback = "int \<Rightarrow> int \<Rightarrow> exn option"

text \<open>
  The \<open>for\<close> loop of \<open>save_video\<close> over the indices still to do.  A frame that cannot be
  read is skipped; an exception ends the loop.
\<close>

fun save_loop ::
  "env \<Rightarrow> callback option \<Rightarrow> int list \<Rightarrow> video_processor \<Rightarrow> video_writer
     \<Rightarrow> unit result \<times> video_processor \<times> video_writer" where
  "save_loop e progress_callback [] vp out = (Return (), vp, out)"
| "save_loop e progress_callback (i # is) vp out =
     (case get_frame e i vp of
        (Raise ex, vp1) \<Rightarrow> (Raise ex, vp1, out)
      | (Return None, vp1) \<Rightarrow> save_loop e progress_callback is vp1 out
      | (Return (Some frame), vp1) \<Rightarrow>
          (let detected = (case detection_results vp1 i of Some d \<Rightarrow> d | None \<Rightarrow> None);
               (r, bm1) = apply_blur e frame detected (Some i) (blur_manager vp1);
               vp2 = vp1\<lparr>blur_manager := bm1\<rparr>
           in case r of
                Raise ex \<Rightarrow> (Raise ex, vp2, out)
              | Return processed \<Rightarrow>
                  (let out1 = vw_write processed out
                   in case progress_callback of
                        None \<Rightarrow> save_loop e progress_callback is vp2 out1
                      | Some cb \<Rightarrow>
                          (case cb (i + 1) (frame_count vp2) of
                             Some ex \<Rightarrow> (Raise ex, vp2, out1)
                           | None \<Rightarrow> save_loop e progress_callback is vp2 out1))))"

text \<open>
  \<open>VideoProcessor.save_video\<close>.  The third component is the sink, once it has been
  constructed.  The \<open>finally\<close> block runs after the loop however it ended; an exception
  raised inside the block replaces the one of the loop.
\<close>

definition save_video ::
  "env \<Rightarrow> string \<Rightarrow> callback option \<Rightarrow> video_processor
     \<Rightarrow> bool result \<times> video_processor \<times> video_writer option" where
  "save_video e output_path progress_callback vp =
     (case cap vp of
        None \<Rightarrow> (Return False, vp, None)
      | Some c \<Rightarrow>
          (case (fps vp, width vp, height vp) of
             (Some f, Some w, Some h) \<Rightarrow>
               (let out = \<lparr>vw_opened = writer_opens e output_path f (w, h),
                           vw_written = [], vw_released = False\<rparr>;
                    current_pos = current_frame_idx vp;
                    (r, vp1, out1) = save_loop e progress_callback [0..frame_count vp - 1] vp out;
                    out2 = vw_release out1;
                    (r2, vp2) = get_frame e current_pos vp1
                in case r2 of
                     Raise ex \<Rightarrow> (Raise ex, vp2, Some out2)
                   | Return restored \<Rightarrow>
                       (case r of
                          Raise ex \<Rightarrow> (Raise ex, vp2, Some out2)
                        | Return u \<Rightarrow> (Return True, vp2, Some out2)))
           | _ \<Rightarrow> (Raise AttributeError, vp, None)))"

section \<open>The callers in FaceBlurUI\<close>

text \<open>
  The fields of the window object that the two write paths below read: the processor (and
  through it the manager), the two slider variables, and the state of a drag.
\<close>

record face_blur_ui =
  video_processor :: video_processor
  blur_sigma :: int
  blur_ksize :: int
  drawing :: bool
  start_x :: int
  start_y :: int

text \<open>
  \<open>FaceBlurUI.show_frame\<close>, as far as the processor is concerned: it renders the current
  frame through \<open>process_current_frame\<close>; the drawing on the canvas is left out.
\<close>

definition show_frame :: "env \<Rightarrow> face_blur_ui \<Rightarrow> unit result \<times> face_blur_ui" where
  "show_frame e ui =
     (case current_frame (video_processor ui) of
        None \<Rightarrow> (Return (), ui)
      | Some fr \<Rightarrow>
          (case process_current_frame e (video_processor ui) of
             (Raise ex, vp1) \<Rightarrow> (Raise ex, ui\<lparr>video_processor := vp1\<rparr>)
           | (Return processed, vp1) \<Rightarrow> (Return (), ui\<lparr>video_processor := vp1\<rparr>)))"

text \<open>
  \<open>FaceBlurUI.update_blur_params\<close>, the slider callback: an even kernel size is moved to
  the next integer before the manager is called, and the render cache is emptied.
\<close>

definition ui_update_blur_params :: "env \<Rightarrow> face_blur_ui \<Rightarrow> unit result \<times> face_blur_ui" where
  "ui_update_blur_params e ui =
     (let sigma = blur_sigma ui;
          ksize = blur_ksize ui;
          (ksize1, ui1) = (if ksize mod 2 = 0 then (ksize + 1, ui\<lparr>blur_ksize := ksize + 1\<rparr>)
                           else (ksize, ui));
          vp = video_processor ui1;
          vp1 = vp\<lparr>blur_manager := update_blur_params sigma ksize1 (blur_manager vp)\<rparr>;
          vp2 = vp1\<lparr>processed_frames := Map.empty\<rparr>
      in show_frame e (ui1\<lparr>video_processor := vp2\<rparr>))"

text \<open>
  \<open>FaceBlurUI.on_canvas_release\<close>.  \<open>end_x\<close> and \<open>end_y\<close> are the image coordinates of the
  release point, which the handler computes from the mouse event by clamping and scaling;
  the drag started at \<open>(start_x, start_y)\<close>.  The handler reads the shape of the current
  frame first, which raises when there is none.  A rectangle narrower or lower than ten
  pixels is dropped.
\<close>

definition on_canvas_release :: "env \<Rightarrow> int \<Rightarrow> int \<Rightarrow> face_blur_ui \<Rightarrow> unit result \<times> face_blur_ui" where
  "on_canvas_release e end_x end_y ui =
     (if \<not> drawing ui then (Return (), ui)
      else
        (let ui1 = ui\<lparr>drawing := False\<rparr>
         in case current_frame (video_processor ui1) of
              None \<Rightarrow> (Raise AttributeError, ui1)
            | Some fr \<Rightarrow>
                (let x1 = min (start_x ui1) end_x;
                     y1 = min (start_y ui1) end_y;
                     x2 = max (start_x ui1) end_x;
                     y2 = max (start_y ui1) end_y
                 in if x2 - x1 < 10 \<or> y2 - y1 < 10 then (Return (), ui1)
                    else
                      (let sigma = blur_sigma ui1;
                           ksize = blur_ksize ui1;
                           ksize1 = (if ksize mod 2 = 1 then ksize else ksize + 1);
                           vp = video_processor ui1;
                           frame_idx = current_frame_idx vp;
                           vp1 = vp\<lparr>blur_manager :=
                                      add_manual_region_to_frame frame_idx x1 y1 x2 y2 sigma ksize1 (blur_manager vp)\<rparr>;
                           vp2 = vp1\<lparr>processed_frames := (processed_frames vp1)(frame_idx := None)\<rparr>
                       in show_frame e (ui1\<lparr>video_processor := vp2\<rparr>)))))"

section \<open>Notions used in the statements\<close>

text \<open>The corners of a region are in order on both axes.\<close>

definition normalized :: "region \<Rightarrow> bool" where
  "normalized r = (case r of (x1, y1, x2, y2, _, _) \<Rightarrow> x1 \<le> x2 \<and> y1 \<le> y2)"

text \<open>The kernel size stored in a region.\<close>

definition ksize_of :: "region \<Rightarrow> int" where
  "ksize_of r = (case r of (_, _, _, _, _, ksize) \<Rightarrow> ksize)"

text \<open>
  Two states of the processor read the same source: the same frame count, and a capture
  that is open in both or in neither and decodes the same frame at every position.
\<close>

definition same_source :: "video_processor \<Rightarrow> video_processor \<Rightarrow> bool" where
  "same_source vp vp' =
     (frame_count vp' = frame_count vp
      \<and> map_option cap_opened (cap vp') = map_option cap_opened (cap vp)
      \<and> map_option cap_frames (cap vp') = map_option cap_frames (cap vp))"

text \<open>The regions recorded for an optional frame index; none when there is no list.\<close>

definition regions_of :: "(int \<rightharpoonup> region list) \<Rightarrow> int option \<Rightarrow> region list" where
  "regions_of m frame_idx = (case lookup_idx m frame_idx of None \<Rightarrow> [] | Some rs \<Rightarrow> rs)"

text \<open>
  The compositor as the specification words it: starting from the frame, the automatic
  regions and then the manual regions are taken in list order, and each region is blurred
  in the frame that the regions before it have produced.  An exception of the blur ends
  the rendering.
\<close>

definition then_blur :: "env \<Rightarrow> frame result \<Rightarrow> region \<Rightarrow> frame result" where
  "then_blur e acc r = (case acc of Raise ex \<Rightarrow> Raise ex | Return fr \<Rightarrow> blur_region e r fr)"

definition render_spec :: "env \<Rightarrow> region list \<Rightarrow> region list \<Rightarrow> frame \<Rightarrow> frame result" where
  "render_spec e automatic manual frame = foldl (then_blur e) (Return frame) (automatic @ manual)"



section \<open>Example inputs\<close>

text \<open>A ledger with one manual region on frame 0 and nothing else.\<close>

definition bm_one_manual :: blur_manager where
  "bm_one_manual = init_blur_manager\<lparr>manual_regions := [0 \<mapsto> [(1, 1, 20, 20, 30, 31)]]\<rparr>"

text \<open>A ledger with one manual and one automatic region on frame 0.\<close>

definition bm_auto_and_manual :: blur_manager where
  "bm_auto_and_manual =
     init_blur_manager\<lparr>manual_regions := [0 \<mapsto> [(1, 1, 20, 20, 30, 31)]],
                       detected_regions := [0 \<mapsto> [(10, 10, 60, 60, 30, 31)]]\<rparr>"

text \<open>
  A source of two frames of two by two pixels, both of which decode; a detector that
  finds one face on every frame; a blur that sets every pixel to 0; a sink that does not
  open.
\<close>

definition frame_a :: frame where
  "frame_a = [[1, 2], [3, 4]]"

definition frame_b :: frame where
  "frame_b = [[5, 6], [7, 8]]"

definition cap_two :: capture where
  "cap_two =
     \<lparr>cap_opened = True, cap_frame_count = 2, cap_fps = 25, cap_width = 2, cap_height = 2,
      cap_frames = (\<lambda>i. if i = 0 then Some frame_a else if i = 1 then Some frame_b else None),
      cap_pos = 0\<rparr>"

definition env_two :: env where
  "env_two =
     \<lparr>detect = (\<lambda>fr. Inr (Some [(0, 0, 1, 1)])),
      gaussian_blur = (\<lambda>fr ksize sigma. Inr (map (map (\<lambda>p. 0)) fr)),
      video_capture = (\<lambda>path. cap_two),
      writer_opens = (\<lambda>path f size. False),
      annotate = (\<lambda>auto r fr. fr)\<rparr>"

text \<open>
  A window in the middle of a drag that started at \<open>(50, 40)\<close> on frame 0, with the
  kernel-size slider at the even value 4.
\<close>

definition ui_drag :: face_blur_ui where
  "ui_drag =
     \<lparr>video_processor = (init_video_processor init_blur_manager)\<lparr>current_frame := Some frame_a\<rparr>,
      blur_sigma = 30, blur_ksize = 4, drawing = True, start_x = 50, start_y = 40\<rparr>"

text \<open>A processor whose current frame 0 has one detected face and no automatic regions yet.\<close>

definition vp_detected :: video_processor where
  "vp_detected =
     (init_video_processor init_blur_manager)\<lparr>current_frame := Some frame_a,
                                               detected_faces := Some [(0, 0, 1, 1)]\<rparr>"

text \<open>
  The processor after it has opened the two-frame source, with detection enabled and with
  detection disabled.
\<close>

definition vp_on :: video_processor where
  "vp_on = snd (open_video env_two ''in.mp4'' (init_video_processor init_blur_manager))"

definition vp_off :: video_processor where
  "vp_off =
     snd (open_video env_two ''in.mp4'' ((init_video_processor init_blur_manager)\<lparr>detect_faces := False\<rparr>))"

text \<open>
  A source that reports two frames of which the first does not decode, and the processor
  after it has opened that source.
\<close>

definition cap_bad_first :: capture where
  "cap_bad_first =
     \<lparr>cap_opened = True, cap_frame_count = 2, cap_fps = 25, cap_width = 2, cap_height = 2,
      cap_frames = (\<lambda>i. if i = 1 then Some frame_b else None),
      cap_pos = 0\<rparr>"

definition env_bad_first :: env where
  "env_bad_first = env_two\<lparr>video_capture := (\<lambda>path. cap_bad_first)\<rparr>"

definition vp_bad_first :: video_processor where
  "vp_bad_first = snd (open_video env_bad_first ''in.mp4'' (init_video_processor init_blur_manager))"

text \<open>
  A blur that always raises, and the processor on the two-frame source with one manual
  region on frame 1.
\<close>

definition env_blur_fails :: env where
  "env_blur_fails = env_two\<lparr>gaussian_blur := (\<lambda>fr ksize sigma. Inl BlurError)\<rparr>"

definition vp_manual_1 :: video_processor where
  "vp_manual_1 = vp_on\<lparr>blur_manager := add_manual_region_to_frame 1 0 0 2 2 30 31 (blur_manager vp_on)\<rparr>"

text \<open>
  A blur that maps a pixel \<open>p\<close> to \<open>10 * p + sigma\<close>, so that the order of two blurs of
  one pixel shows in the result; a ledger whose frame 0 has an automatic region with
  \<open>sigma = 1\<close> and a manual region with \<open>sigma = 2\<close> on the same pixel; and a store that
  holds \<open>frame_a\<close> at address 0.
\<close>

definition env_order :: env where
  "env_order = env_two\<lparr>gaussian_blur := (\<lambda>fr ksize sigma. Inr (map (map (\<lambda>p. 10 * p + nat sigma)) fr))\<rparr>"

definition bm_overlap :: blur_manager where
  "bm_overlap =
     init_blur_manager\<lparr>manual_regions := [0 \<mapsto> [(0, 0, 1, 1, 2, 3)]],
                       detected_regions := [0 \<mapsto> [(0, 0, 1, 1, 1, 3)]]\<rparr>"

definition store_one :: store where
  "store_one = \<lparr>cells = (\<lambda>a. if a = 0 then frame_a else []), next_free = 1\<rparr>"




section \<open>Properties of the ledger\<close>

subsection \<open>What the rendering leaves alone\<close>

lemma apply_blur_manager:
  "snd (apply_blur e fr d idx bm) = (case idx of None \<Rightarrow> bm | Some i \<Rightarrow> bm\<lparr>bm_current_frame_idx := i\<rparr>)"
  by (simp add: apply_blur_def Let_def split: result.splits option.splits)

lemma apply_blur_managerD:
  "apply_blur e fr d (Some i) bm = (r, bm1) \<Longrightarrow> bm1 = bm\<lparr>bm_current_frame_idx := i\<rparr>"
  using apply_blur_manager[of e fr d "Some i" bm] by simp

lemma materialize_fields:
  "manual_regions (blur_manager (materialize vp)) = manual_regions (blur_manager vp)"
  "default_ksize (blur_manager (materialize vp)) = default_ksize (blur_manager vp)"
  "default_sigma (blur_manager (materialize vp)) = default_sigma (blur_manager vp)"
  "current_frame_idx (materialize vp) = current_frame_idx vp"
  by (simp_all add: materialize_def Let_def split: option.splits)

lemma process_current_frame_fields:
  "manual_regions (blur_manager (snd (process_current_frame e vp))) = manual_regions (blur_manager vp)"
  "default_ksize (blur_manager (snd (process_current_frame e vp))) = default_ksize (blur_manager vp)"
  "current_frame_idx (snd (process_current_frame e vp)) = current_frame_idx vp"
  by (auto simp: process_current_frame_def Let_def materialize_fields
      split: option.splits result.splits prod.splits dest!: apply_blur_managerD)

lemma show_frame_fields:
  "manual_regions (blur_manager (video_processor (snd (show_frame e ui)))) = manual_regions (blur_manager (video_processor ui))"
  "default_ksize (blur_manager (video_processor (snd (show_frame e ui)))) = default_ksize (blur_manager (video_processor ui))"
  "current_frame_idx (video_processor (snd (show_frame e ui))) = current_frame_idx (video_processor ui)"
  "blur_ksize (snd (show_frame e ui)) = blur_ksize ui"
proof -
  obtain r vp1 where p: "process_current_frame e (video_processor ui) = (r, vp1)"
    by (cases "process_current_frame e (video_processor ui)")
  note f = process_current_frame_fields[of e "video_processor ui", unfolded p, simplified]
  show "manual_regions (blur_manager (video_processor (snd (show_frame e ui)))) = manual_regions (blur_manager (video_processor ui))"
    using f p by (simp add: show_frame_def split: option.splits result.splits)
  show "default_ksize (blur_manager (video_processor (snd (show_frame e ui)))) = default_ksize (blur_manager (video_processor ui))"
    using f p by (simp add: show_frame_def split: option.splits result.splits)
  show "current_frame_idx (video_processor (snd (show_frame e ui))) = current_frame_idx (video_processor ui)"
    using f p by (simp add: show_frame_def split: option.splits result.splits)
  show "blur_ksize (snd (show_frame e ui)) = blur_ksize ui"
    using p by (simp add: show_frame_def split: option.splits result.splits)
qed

subsection \<open>Updating the blur parameters\<close>

text \<open>
  C1.  The claim is that \<open>update_blur_params\<close> rewrites \<open>sigma\<close> and \<open>ksize\<close> of every
  region of both per-frame collections.  On a ledger with one automatic region
  \<open>(10, 10, 60, 60, 30, 31)\<close> and one manual region \<open>(1, 1, 20, 20, 30, 31)\<close> on frame 0,
  \<open>update_blur_params 5 7\<close> rewrites the manual region and leaves the automatic region
  with its old parameters.
\<close>

theorem update_blur_params_skips_detected:
  "detected_regions (update_blur_params 5 7 bm_auto_and_manual) 0 = Some [(10, 10, 60, 60, 30, 31)]
   \<and> manual_regions (update_blur_params 5 7 bm_auto_and_manual) 0 = Some [(1, 1, 20, 20, 5, 7)]"
  by (simp add: update_blur_params_def bm_auto_and_manual_def init_blur_manager_def restamp_def)

subsection \<open>Adding a manual region\<close>

lemma regions_at_add_manual:
  "regions_at (manual_regions (add_manual_region_to_frame idx x1 y1 x2 y2 s k bm)) idx
     = regions_at (manual_regions bm) idx @ [(x1, y1, x2, y2, s, k)]"
  by (simp add: add_manual_region_to_frame_def regions_at_def Let_def split: option.splits)

lemma on_canvas_release_stored:
  assumes "drawing ui" "current_frame (video_processor ui) = Some fr"
    and "10 \<le> \<bar>end_x - start_x ui\<bar>" "10 \<le> \<bar>end_y - start_y ui\<bar>"
  shows "regions_at (manual_regions (blur_manager (video_processor (snd (on_canvas_release e end_x end_y ui)))))
           (current_frame_idx (video_processor ui))
         = regions_at (manual_regions (blur_manager (video_processor ui))) (current_frame_idx (video_processor ui))
           @ [(min (start_x ui) end_x, min (start_y ui) end_y, max (start_x ui) end_x, max (start_y ui) end_y,
               blur_sigma ui, if blur_ksize ui mod 2 = 1 then blur_ksize ui else blur_ksize ui + 1)]"
proof -
  have big: "\<not> (max (start_x ui) end_x - min (start_x ui) end_x < 10
                 \<or> max (start_y ui) end_y - min (start_y ui) end_y < 10)"
    using assms(3,4) by (auto simp: max_def min_def)
  show ?thesis
    using assms(1,2) big
    by (simp add: on_canvas_release_def Let_def show_frame_fields regions_at_add_manual
        del: max_less_iff_conj min_less_iff_conj)
qed

text \<open>
  C6, the claim as stated: \<open>add_manual_region_to_frame\<close> called with the corners
  \<open>(50, 40)\<close> and \<open>(10, 20)\<close> stores \<open>(50, 40, 10, 20, 30, 31)\<close>, whose corners are not in
  order.
\<close>

theorem add_manual_region_to_frame_not_normalized:
  "regions_at (manual_regions (add_manual_region_to_frame 0 50 40 10 20 30 31 init_blur_manager)) 0
     = [(50, 40, 10, 20, 30, 31)]
   \<and> \<not> normalized (50, 40, 10, 20, 30, 31)"
  by (simp add: add_manual_region_to_frame_def init_blur_manager_def regions_at_def normalized_def)

text \<open>
  C6, amended.  The corners are put in order by the caller: for any two corner points of a
  drag whose extent is at least ten pixels on both axes, \<open>on_canvas_release\<close> appends to the
  manual regions of the current frame a region whose corners are the minimum and the
  maximum of the two points on each axis, so that \<open>x1 \<le> x2\<close> and \<open>y1 \<le> y2\<close>.
\<close>

theorem on_canvas_release_normalized:
  assumes "drawing ui" "current_frame (video_processor ui) = Some fr"
    and "10 \<le> \<bar>end_x - start_x ui\<bar>" "10 \<le> \<bar>end_y - start_y ui\<bar>"
  shows "\<exists>sigma ksize.
           regions_at (manual_regions (blur_manager (video_processor (snd (on_canvas_release e end_x end_y ui)))))
             (current_frame_idx (video_processor ui))
           = regions_at (manual_regions (blur_manager (video_processor ui))) (current_frame_idx (video_processor ui))
             @ [(min (start_x ui) end_x, min (start_y ui) end_y, max (start_x ui) end_x, max (start_y ui) end_y, sigma, ksize)]
           \<and> normalized (min (start_x ui) end_x, min (start_y ui) end_y, max (start_x ui) end_x, max (start_y ui) end_y, sigma, ksize)"
  using on_canvas_release_stored[OF assms, of e] by (auto simp: normalized_def)

theorem on_canvas_release_normalized_witness:
  "\<exists>sigma ksize.
     regions_at (manual_regions (blur_manager (video_processor (snd (on_canvas_release env_two 10 20 ui_drag))))) 0
       = [(10, 20, 50, 40, sigma, ksize)]
     \<and> normalized (10, 20, 50, 40, sigma, ksize)"
proof -
  have h1: "drawing ui_drag"
    by (simp add: ui_drag_def)
  have h2: "current_frame (video_processor ui_drag) = Some frame_a"
    by (simp add: ui_drag_def)
  have h3: "10 \<le> \<bar>10 - start_x ui_drag\<bar>" and h4: "10 \<le> \<bar>20 - start_y ui_drag\<bar>"
    by (simp_all add: ui_drag_def)
  have v: "current_frame_idx (video_processor ui_drag) = 0" "start_x ui_drag = 50" "start_y ui_drag = 40"
    "regions_at (manual_regions (blur_manager (video_processor ui_drag))) 0 = []"
    by (simp_all add: ui_drag_def init_video_processor_def init_blur_manager_def regions_at_def)
  show ?thesis
    using on_canvas_release_normalized [OF h1 h2 h3 h4, of env_two] by (simp add: v)
qed


subsection \<open>Copying regions to the next frame\<close>

lemma set_append_missing: "set (append_missing src tgt) = set src \<union> set tgt"
  by (induction src arbitrary: tgt) auto

lemma append_missing_present: "set src \<subseteq> set tgt \<Longrightarrow> append_missing src tgt = tgt"
  by (induction src arbitrary: tgt) auto

lemma distinct_append_missing: "distinct tgt \<Longrightarrow> distinct (append_missing src tgt)"
  by (induction src arbitrary: tgt) auto

lemma append_missing_twice: "append_missing src (append_missing src tgt) = append_missing src tgt"
  by (rule append_missing_present) (simp add: set_append_missing)

lemma copy_into_other: "k \<noteq> nxt \<Longrightarrow> copy_into m cur nxt k = m k"
  by (auto simp: copy_into_def Let_def)

lemma copy_into_at:
  "cur \<noteq> nxt \<Longrightarrow>
   copy_into m cur nxt nxt = Some (append_missing (regions_at m cur) (regions_at m nxt))"
  by (auto simp: copy_into_def regions_at_def Let_def split: option.splits)

lemma regions_at_copy_into:
  "cur \<noteq> nxt \<Longrightarrow>
   regions_at (copy_into m cur nxt) nxt = append_missing (regions_at m cur) (regions_at m nxt)"
  by (simp add: regions_at_def copy_into_at)

lemma copy_into_twice:
  assumes ne: "cur \<noteq> nxt"
  shows "copy_into (copy_into m cur nxt) cur nxt = copy_into m cur nxt"
proof (rule ext)
  fix k
  show "copy_into (copy_into m cur nxt) cur nxt k = copy_into m cur nxt k"
  proof (cases "k = nxt")
    case True
    have "regions_at (copy_into m cur nxt) cur = regions_at m cur"
      using ne by (simp add: regions_at_def copy_into_other)
    then show ?thesis
      using True ne by (simp add: copy_into_at regions_at_copy_into append_missing_twice)
  next
    case False
    then show ?thesis by (simp add: copy_into_other)
  qed
qed

lemma has_regions_copy_into:
  "cur \<noteq> nxt \<Longrightarrow> has_regions (copy_into m cur nxt) cur = has_regions m cur"
  by (simp add: has_regions_def copy_into_other)

lemma distinct_copy_into:
  "cur \<noteq> nxt \<Longrightarrow> distinct (regions_at m nxt) \<Longrightarrow> distinct (regions_at (copy_into m cur nxt) nxt)"
  by (simp add: regions_at_copy_into distinct_append_missing)

text \<open>
  C8.  A second call of \<open>copy_regions_to_next_frame\<close> on the same frame returns what the
  first call returned and leaves the ledger as the first call left it, so it adds no
  region to the next frame; a list of the next frame that had no duplicates has none
  afterwards; and when the current frame has neither manual nor automatic regions
  (no list, or an empty one) the call returns \<open>False\<close> and the ledger is unchanged, so
  no key is created.
\<close>

theorem copy_regions_to_next_frame_idempotent:
  "copy_regions_to_next_frame (snd (copy_regions_to_next_frame bm)) = copy_regions_to_next_frame bm
   \<and> (distinct (regions_at (manual_regions bm) (bm_current_frame_idx bm + 1)) \<longrightarrow>
        distinct (regions_at (manual_regions (snd (copy_regions_to_next_frame bm))) (bm_current_frame_idx bm + 1)))
   \<and> (distinct (regions_at (detected_regions bm) (bm_current_frame_idx bm + 1)) \<longrightarrow>
        distinct (regions_at (detected_regions (snd (copy_regions_to_next_frame bm))) (bm_current_frame_idx bm + 1)))
   \<and> (\<not> has_regions (manual_regions bm) (bm_current_frame_idx bm)
        \<and> \<not> has_regions (detected_regions bm) (bm_current_frame_idx bm) \<longrightarrow>
        copy_regions_to_next_frame bm = (False, bm))"
proof (intro conjI impI)
  show "copy_regions_to_next_frame (snd (copy_regions_to_next_frame bm)) = copy_regions_to_next_frame bm"
    by (simp add: copy_regions_to_next_frame_def Let_def has_regions_copy_into copy_into_twice)
next
  assume "distinct (regions_at (manual_regions bm) (bm_current_frame_idx bm + 1))"
  then show "distinct (regions_at (manual_regions (snd (copy_regions_to_next_frame bm))) (bm_current_frame_idx bm + 1))"
    by (simp add: copy_regions_to_next_frame_def Let_def distinct_copy_into)
next
  assume "distinct (regions_at (detected_regions bm) (bm_current_frame_idx bm + 1))"
  then show "distinct (regions_at (detected_regions (snd (copy_regions_to_next_frame bm))) (bm_current_frame_idx bm + 1))"
    by (simp add: copy_regions_to_next_frame_def Let_def distinct_copy_into)
next
  assume "\<not> has_regions (manual_regions bm) (bm_current_frame_idx bm)
          \<and> \<not> has_regions (detected_regions bm) (bm_current_frame_idx bm)"
  then show "copy_regions_to_next_frame bm = (False, bm)"
    by (simp add: copy_regions_to_next_frame_def Let_def)
qed

theorem copy_regions_to_next_frame_idempotent_witness:
  "regions_at (manual_regions (snd (copy_regions_to_next_frame bm_one_manual))) 1 = [(1, 1, 20, 20, 30, 31)]
   \<and> distinct (regions_at (manual_regions (snd (copy_regions_to_next_frame bm_one_manual))) 1)
   \<and> distinct (regions_at (detected_regions (snd (copy_regions_to_next_frame bm_one_manual))) 1)
   \<and> copy_regions_to_next_frame (snd (copy_regions_to_next_frame bm_one_manual))
       = copy_regions_to_next_frame bm_one_manual
   \<and> copy_regions_to_next_frame init_blur_manager = (False, init_blur_manager)"
proof -
  have idx: "bm_current_frame_idx bm_one_manual + 1 = 1" "bm_current_frame_idx init_blur_manager = 0"
    by (simp_all add: bm_one_manual_def init_blur_manager_def)
  have d1: "distinct (regions_at (manual_regions bm_one_manual) (bm_current_frame_idx bm_one_manual + 1))"
    by (simp add: bm_one_manual_def init_blur_manager_def regions_at_def)
  have d2: "distinct (regions_at (detected_regions bm_one_manual) (bm_current_frame_idx bm_one_manual + 1))"
    by (simp add: bm_one_manual_def init_blur_manager_def regions_at_def)
  have none: "\<not> has_regions (manual_regions init_blur_manager) (bm_current_frame_idx init_blur_manager)
              \<and> \<not> has_regions (detected_regions init_blur_manager) (bm_current_frame_idx init_blur_manager)"
    by (simp add: init_blur_manager_def has_regions_def)
  note thm1 = copy_regions_to_next_frame_idempotent [of bm_one_manual]
  note thm0 = copy_regions_to_next_frame_idempotent [of init_blur_manager]
  have a: "copy_regions_to_next_frame (snd (copy_regions_to_next_frame bm_one_manual))
             = copy_regions_to_next_frame bm_one_manual"
    using thm1 by (rule conjunct1)
  have b: "distinct (regions_at (manual_regions (snd (copy_regions_to_next_frame bm_one_manual))) 1)"
    using thm1 [THEN conjunct2, THEN conjunct1, THEN mp, OF d1] by (simp only: idx)
  have c: "distinct (regions_at (detected_regions (snd (copy_regions_to_next_frame bm_one_manual))) 1)"
    using thm1 [THEN conjunct2, THEN conjunct2, THEN conjunct1, THEN mp, OF d2] by (simp only: idx)
  have d: "copy_regions_to_next_frame init_blur_manager = (False, init_blur_manager)"
    using thm0 [THEN conjunct2, THEN conjunct2, THEN conjunct2, THEN mp, OF none] .
  have v: "regions_at (manual_regions (snd (copy_regions_to_next_frame bm_one_manual))) 1 = [(1, 1, 20, 20, 30, 31)]"
    by (simp add: copy_regions_to_next_frame_def bm_one_manual_def init_blur_manager_def
        has_regions_def copy_into_def regions_at_def Let_def)
  from v b c a d show ?thesis by blast
qed

subsection \<open>The kernel size on the write paths\<close>

lemma update_blur_params_ksize:
  "default_ksize (update_blur_params s k bm) = k"
  "list_all (\<lambda>r. ksize_of r = k) (regions_at (manual_regions (update_blur_params s k bm)) idx)"
  by (auto simp: update_blur_params_def regions_at_def restamp_def ksize_of_def list_all_iff
      split: option.splits)

lemma ui_update_blur_params_ksize:
  "default_ksize (blur_manager (video_processor (snd (ui_update_blur_params e ui))))
     = (if even (blur_ksize ui) then blur_ksize ui + 1 else blur_ksize ui)"
  "list_all (\<lambda>r. ksize_of r = (if even (blur_ksize ui) then blur_ksize ui + 1 else blur_ksize ui))
     (regions_at (manual_regions (blur_manager (video_processor (snd (ui_update_blur_params e ui))))) idx)"
  by (simp_all add: ui_update_blur_params_def Let_def show_frame_fields update_blur_params_ksize
      even_iff_mod_2_eq_zero)

lemma materialize_regions:
  "detected_faces vp = Some boxes \<Longrightarrow> detected_regions (blur_manager vp) (current_frame_idx vp) = None \<Longrightarrow>
   regions_at (detected_regions (blur_manager (materialize vp))) (current_frame_idx vp)
     = map (stamp (blur_manager vp)) boxes"
  by (simp add: materialize_def Let_def regions_at_def)

lemma ksize_of_stamp: "ksize_of (stamp bm b) = default_ksize bm"
  by (cases b) (simp add: stamp_def ksize_of_def)

text \<open>
  C2, the claim as stated: \<open>add_manual_region_to_frame\<close> called with the even kernel size
  4 stores 4, and \<open>update_blur_params\<close> called with 4 stores 4 as the default.
\<close>

theorem add_manual_region_to_frame_keeps_even_ksize:
  "regions_at (manual_regions (add_manual_region_to_frame 0 10 10 40 40 30 4 init_blur_manager)) 0
     = [(10, 10, 40, 40, 30, 4)]
   \<and> default_ksize (update_blur_params 30 4 init_blur_manager) = 4"
  by (simp add: add_manual_region_to_frame_def update_blur_params_def init_blur_manager_def regions_at_def)

text \<open>
  C2, amended.  The operations of the ledger store the kernel size they are given:
  \<open>add_manual_region_to_frame\<close> stores \<open>k\<close> in the new region, \<open>update_blur_params\<close> stores
  \<open>k\<close> as the default and in every manual region, and the regions created from detections
  carry the current default.  The value is made odd by the callers in the window before
  it reaches the ledger: for the value \<open>k\<close> of the kernel-size slider, the slider callback
  \<open>FaceBlurUI.update_blur_params\<close> and a region drawn through \<open>on_canvas_release\<close> store
  \<open>k\<close> if \<open>k\<close> is odd and \<open>k + 1\<close> if \<open>k\<close> is even.
\<close>

theorem kernel_size_write_paths:
  "ksize_of (last (regions_at (manual_regions (add_manual_region_to_frame idx x1 y1 x2 y2 s k bm)) idx)) = k
   \<and> default_ksize (update_blur_params s k bm) = k
   \<and> list_all (\<lambda>r. ksize_of r = k) (regions_at (manual_regions (update_blur_params s k bm)) idx)
   \<and> (detected_faces vp = Some boxes \<and> detected_regions (blur_manager vp) (current_frame_idx vp) = None \<longrightarrow>
        list_all (\<lambda>r. ksize_of r = default_ksize (blur_manager vp))
          (regions_at (detected_regions (blur_manager (materialize vp))) (current_frame_idx vp)))
   \<and> default_ksize (blur_manager (video_processor (snd (ui_update_blur_params e ui))))
        = (if even (blur_ksize ui) then blur_ksize ui + 1 else blur_ksize ui)
   \<and> list_all (\<lambda>r. ksize_of r = (if even (blur_ksize ui) then blur_ksize ui + 1 else blur_ksize ui))
        (regions_at (manual_regions (blur_manager (video_processor (snd (ui_update_blur_params e ui))))) idx)
   \<and> (drawing ui \<and> current_frame (video_processor ui) \<noteq> None
        \<and> 10 \<le> \<bar>end_x - start_x ui\<bar> \<and> 10 \<le> \<bar>end_y - start_y ui\<bar> \<longrightarrow>
        ksize_of (last (regions_at
            (manual_regions (blur_manager (video_processor (snd (on_canvas_release e end_x end_y ui)))))
            (current_frame_idx (video_processor ui))))
          = (if even (blur_ksize ui) then blur_ksize ui + 1 else blur_ksize ui))"
proof (intro conjI impI)
  show "ksize_of (last (regions_at (manual_regions (add_manual_region_to_frame idx x1 y1 x2 y2 s k bm)) idx)) = k"
    by (simp add: regions_at_add_manual ksize_of_def)
next
  show "default_ksize (update_blur_params s k bm) = k"
    by (rule update_blur_params_ksize)
next
  show "list_all (\<lambda>r. ksize_of r = k) (regions_at (manual_regions (update_blur_params s k bm)) idx)"
    by (rule update_blur_params_ksize)
next
  assume "detected_faces vp = Some boxes \<and> detected_regions (blur_manager vp) (current_frame_idx vp) = None"
  then show "list_all (\<lambda>r. ksize_of r = default_ksize (blur_manager vp))
          (regions_at (detected_regions (blur_manager (materialize vp))) (current_frame_idx vp))"
    by (simp add: materialize_regions list_all_iff ksize_of_stamp)
next
  show "default_ksize (blur_manager (video_processor (snd (ui_update_blur_params e ui))))
        = (if even (blur_ksize ui) then blur_ksize ui + 1 else blur_ksize ui)"
    by (rule ui_update_blur_params_ksize)
next
  show "list_all (\<lambda>r. ksize_of r = (if even (blur_ksize ui) then blur_ksize ui + 1 else blur_ksize ui))
        (regions_at (manual_regions (blur_manager (video_processor (snd (ui_update_blur_params e ui))))) idx)"
    by (rule ui_update_blur_params_ksize)
next
  assume a: "drawing ui \<and> current_frame (video_processor ui) \<noteq> None
        \<and> 10 \<le> \<bar>end_x - start_x ui\<bar> \<and> 10 \<le> \<bar>end_y - start_y ui\<bar>"
  then obtain fr where fr: "current_frame (video_processor ui) = Some fr"
    by auto
  have odd_eq: "(if blur_ksize ui mod 2 = 1 then blur_ksize ui else blur_ksize ui + 1)
                = (if even (blur_ksize ui) then blur_ksize ui + 1 else blur_ksize ui)"
    by (simp add: even_iff_mod_2_eq_zero)
  from a fr have "regions_at (manual_regions (blur_manager (video_processor (snd (on_canvas_release e end_x end_y ui)))))
           (current_frame_idx (video_processor ui))
         = regions_at (manual_regions (blur_manager (video_processor ui))) (current_frame_idx (video_processor ui))
           @ [(min (start_x ui) end_x, min (start_y ui) end_y, max (start_x ui) end_x, max (start_y ui) end_y,
               blur_sigma ui, if blur_ksize ui mod 2 = 1 then blur_ksize ui else blur_ksize ui + 1)]"
    by (intro on_canvas_release_stored) auto
  then show "ksize_of (last (regions_at
            (manual_regions (blur_manager (video_processor (snd (on_canvas_release e end_x end_y ui)))))
            (current_frame_idx (video_processor ui))))
          = (if even (blur_ksize ui) then blur_ksize ui + 1 else blur_ksize ui)"
    by (simp only: last_snoc ksize_of_def prod.case odd_eq)
qed

theorem kernel_size_write_paths_witness:
  "list_all (\<lambda>r. ksize_of r = 31) (regions_at (detected_regions (blur_manager (materialize vp_detected))) 0)
   \<and> ksize_of (last (regions_at
        (manual_regions (blur_manager (video_processor (snd (on_canvas_release env_two 10 20 ui_drag))))) 0)) = 5"
proof -
  have h1: "detected_faces vp_detected = Some [(0, 0, 1, 1)]
            \<and> detected_regions (blur_manager vp_detected) (current_frame_idx vp_detected) = None"
    by (simp add: vp_detected_def init_video_processor_def init_blur_manager_def)
  have h2: "drawing ui_drag \<and> current_frame (video_processor ui_drag) \<noteq> None
            \<and> 10 \<le> \<bar>10 - start_x ui_drag\<bar> \<and> 10 \<le> \<bar>20 - start_y ui_drag\<bar>"
    by (simp add: ui_drag_def)
  have v: "current_frame_idx vp_detected = 0" "default_ksize (blur_manager vp_detected) = 31"
    "current_frame_idx (video_processor ui_drag) = 0" "blur_ksize ui_drag = 4"
    by (simp_all add: vp_detected_def ui_drag_def init_video_processor_def init_blur_manager_def)
  note t = kernel_size_write_paths [where vp = vp_detected and boxes = "[(0, 0, 1, 1)]"
      and ui = ui_drag and e = env_two and end_x = 10 and end_y = 20]
  have a: "list_all (\<lambda>r. ksize_of r = 31) (regions_at (detected_regions (blur_manager (materialize vp_detected))) 0)"
    using t [THEN conjunct2, THEN conjunct2, THEN conjunct2, THEN conjunct1, THEN mp, OF h1]
    by (simp add: v)
  have b: "ksize_of (last (regions_at
        (manual_regions (blur_manager (video_processor (snd (on_canvas_release env_two 10 20 ui_drag))))) 0)) = 5"
    using t [THEN conjunct2, THEN conjunct2, THEN conjunct2, THEN conjunct2, THEN conjunct2,
        THEN conjunct2, THEN mp, OF h2]
    by (simp add: v)
  from a b show ?thesis by (rule conjI)
qed

section \<open>Properties of the processor\<close>

lemmas example_defs =
  env_two_def cap_two_def frame_a_def frame_b_def init_video_processor_def init_blur_manager_def
  open_video_def get_frame_def cap_read_def cap_set_pos_def run_detector_def Let_def

subsection \<open>The detection cache\<close>

text \<open>
  C5, the claim as stated: with detection disabled, a lookup of frame 1 that misses stores
  no entry for index 1 and does not call the detector; the next lookup of frame 1, with
  detection enabled, calls the detector on that frame.
\<close>

theorem get_frame_disabled_not_cached:
  "detection_results (snd (get_frame env_two 1 vp_off)) 1 = None
   \<and> detector_calls (snd (get_frame env_two 1 vp_off)) = []
   \<and> detector_calls (snd (get_frame env_two 1 ((snd (get_frame env_two 1 vp_off))\<lparr>detect_faces := True\<rparr>)))
       = [frame_b]"
  by (simp add: vp_off_def example_defs)

text \<open>
  C5, amended.  For a frame index that the source can supply: if the detection cache has
  an entry for the index, \<open>get_frame\<close> yields that entry, changes no cache entry and does
  not call the detector, whether detection is enabled or not; on a miss with detection
  enabled the detector is called once, on that frame, and its result (possibly \<open>None\<close>)
  is stored under the index, or its exception leaves \<open>get_frame\<close> with the cache
  unchanged; on a miss with detection disabled the lookup yields \<open>None\<close>, stores nothing
  and does not call the detector, so that a later lookup with detection enabled calls it.
\<close>

theorem get_frame_detection_cache:
  assumes "cap vp = Some c" "cap_opened c" "0 \<le> idx" "idx < frame_count vp" "cap_frames c idx = Some frame"
  shows "(detection_results vp idx = Some cached \<longrightarrow>
            fst (get_frame e idx vp) = Return (Some frame)
            \<and> detected_faces (snd (get_frame e idx vp)) = cached
            \<and> detection_results (snd (get_frame e idx vp)) = detection_results vp
            \<and> detector_calls (snd (get_frame e idx vp)) = detector_calls vp)
       \<and> (detection_results vp idx = None \<and> detect_faces vp \<longrightarrow>
            detector_calls (snd (get_frame e idx vp)) = detector_calls vp @ [frame]
            \<and> (\<forall>boxes. detect e frame = Inr boxes \<longrightarrow>
                  fst (get_frame e idx vp) = Return (Some frame)
                  \<and> detection_results (snd (get_frame e idx vp)) = (detection_results vp)(idx \<mapsto> boxes)
                  \<and> detected_faces (snd (get_frame e idx vp)) = boxes)
            \<and> (\<forall>ex. detect e frame = Inl ex \<longrightarrow>
                  fst (get_frame e idx vp) = Raise ex
                  \<and> detection_results (snd (get_frame e idx vp)) = detection_results vp))
       \<and> (detection_results vp idx = None \<and> \<not> detect_faces vp \<longrightarrow>
            fst (get_frame e idx vp) = Return (Some frame)
            \<and> detected_faces (snd (get_frame e idx vp)) = None
            \<and> detection_results (snd (get_frame e idx vp)) = detection_results vp
            \<and> detector_calls (snd (get_frame e idx vp)) = detector_calls vp)"
  using assms
  by (auto simp: get_frame_def cap_read_def cap_set_pos_def run_detector_def Let_def split: sum.splits)

theorem get_frame_detection_cache_witness:
  "(fst (get_frame env_two 0 vp_on) = Return (Some frame_a)
    \<and> detected_faces (snd (get_frame env_two 0 vp_on)) = Some [(0, 0, 1, 1)]
    \<and> detection_results (snd (get_frame env_two 0 vp_on)) = detection_results vp_on
    \<and> detector_calls (snd (get_frame env_two 0 vp_on)) = [frame_a])
   \<and> (detector_calls (snd (get_frame env_two 1 vp_on)) = [frame_a, frame_b]
    \<and> detection_results (snd (get_frame env_two 1 vp_on)) 1 = Some (Some [(0, 0, 1, 1)]))
   \<and> (fst (get_frame env_two 1 vp_off) = Return (Some frame_b)
    \<and> detected_faces (snd (get_frame env_two 1 vp_off)) = None
    \<and> detection_results (snd (get_frame env_two 1 vp_off)) = detection_results vp_off
    \<and> detector_calls (snd (get_frame env_two 1 vp_off)) = [])"
proof -
  have on: "cap vp_on = Some (cap_two\<lparr>cap_pos := 1\<rparr>)" "frame_count vp_on = 2"
    "detection_results vp_on 0 = Some (Some [(0, 0, 1, 1)])"
    "detection_results vp_on 1 = None \<and> detect_faces vp_on" "detector_calls vp_on = [frame_a]"
    by (simp_all add: vp_on_def example_defs)
  have off: "cap vp_off = Some (cap_two\<lparr>cap_pos := 1\<rparr>)" "frame_count vp_off = 2"
    "detection_results vp_off 1 = None \<and> \<not> detect_faces vp_off" "detector_calls vp_off = []"
    by (simp_all add: vp_off_def example_defs)
  have c: "cap_opened (cap_two\<lparr>cap_pos := 1\<rparr>)"
    "cap_frames (cap_two\<lparr>cap_pos := 1\<rparr>) 0 = Some frame_a"
    "cap_frames (cap_two\<lparr>cap_pos := 1\<rparr>) 1 = Some frame_b"
    by (simp_all add: cap_two_def)
  have d: "detect env_two frame_b = Inr (Some [(0, 0, 1, 1)])"
    by (simp add: env_two_def)
  have i0: "(0::int) \<le> 0" "(0::int) < frame_count vp_on"
    and i1: "(0::int) \<le> 1" "(1::int) < frame_count vp_on" "(1::int) < frame_count vp_off"
    by (simp_all add: on off)
  note hit = get_frame_detection_cache [OF on(1) c(1) i0 c(2), of _ env_two,
      THEN conjunct1, THEN mp, OF on(3)]
  note miss_on = get_frame_detection_cache [OF on(1) c(1) i1(1,2) c(3), of _ env_two,
      THEN conjunct2, THEN conjunct1, THEN mp, OF on(4)]
  note miss_off = get_frame_detection_cache [OF off(1) c(1) i1(1,3) c(3), of _ env_two,
      THEN conjunct2, THEN conjunct2, THEN mp, OF off(3)]
  have a: "fst (get_frame env_two 0 vp_on) = Return (Some frame_a)
    \<and> detected_faces (snd (get_frame env_two 0 vp_on)) = Some [(0, 0, 1, 1)]
    \<and> detection_results (snd (get_frame env_two 0 vp_on)) = detection_results vp_on
    \<and> detector_calls (snd (get_frame env_two 0 vp_on)) = [frame_a]"
    using hit by (simp add: on(5))
  have b: "detector_calls (snd (get_frame env_two 1 vp_on)) = [frame_a, frame_b]
    \<and> detection_results (snd (get_frame env_two 1 vp_on)) 1 = Some (Some [(0, 0, 1, 1)])"
    using miss_on d by (simp add: on(5))
  have e: "fst (get_frame env_two 1 vp_off) = Return (Some frame_b)
    \<and> detected_faces (snd (get_frame env_two 1 vp_off)) = None
    \<and> detection_results (snd (get_frame env_two 1 vp_off)) = detection_results vp_off
    \<and> detector_calls (snd (get_frame env_two 1 vp_off)) = []"
    using miss_off by (simp add: off(4))
  from a b e show ?thesis by blast
qed

subsection \<open>Opening a video\<close>

text \<open>
  C4, the claim as stated: opening the two-frame source with detection enabled returns
  \<open>True\<close> and leaves an entry for frame 0 in the detection cache; a manual region
  recorded before the call is still in the ledger after it.
\<close>

theorem open_video_maps_not_all_empty:
  "fst (open_video env_two ''in.mp4'' (init_video_processor bm_auto_and_manual)) = Return True
   \<and> detection_results (snd (open_video env_two ''in.mp4'' (init_video_processor bm_auto_and_manual))) 0
       = Some (Some [(0, 0, 1, 1)])
   \<and> manual_regions (blur_manager (snd (open_video env_two ''in.mp4'' (init_video_processor bm_auto_and_manual)))) 0
       = Some [(1, 1, 20, 20, 30, 31)]"
  by (simp add: example_defs bm_auto_and_manual_def)

text \<open>
  C4, amended.  When \<open>open_video\<close> returns \<open>True\<close>, the render cache is empty and the
  detection cache has no entry for any index other than 0; it has an entry for index 0,
  the detector's result on the first frame, exactly when the first frame could be read
  and detection is enabled.
\<close>

theorem open_video_clears_caches:
  assumes "open_video e video_path vp = (Return True, vp')"
  shows "processed_frames vp' = Map.empty
       \<and> (\<forall>i. i \<noteq> 0 \<longrightarrow> detection_results vp' i = None)
       \<and> (case fst (cap_read (video_capture e video_path)) of
            None \<Rightarrow> detection_results vp' 0 = None
          | Some frame \<Rightarrow>
              if detect_faces vp then \<exists>boxes. detect e frame = Inr boxes \<and> detection_results vp' 0 = Some boxes
              else detection_results vp' 0 = None)"
  using assms
  by (auto simp: open_video_def run_detector_def Let_def
      split: if_splits prod.splits option.splits sum.splits)

theorem open_video_clears_caches_witness:
  "processed_frames vp_on = Map.empty
   \<and> detection_results vp_on 1 = None
   \<and> (\<exists>boxes. detect env_two frame_a = Inr boxes \<and> detection_results vp_on 0 = Some boxes)"
proof -
  have h: "open_video env_two ''in.mp4'' (init_video_processor init_blur_manager) = (Return True, vp_on)"
    by (simp add: vp_on_def prod_eq_iff example_defs)
  have r: "fst (cap_read (video_capture env_two ''in.mp4'')) = Some frame_a"
    "detect_faces (init_video_processor init_blur_manager)"
    by (simp_all add: example_defs)
  show ?thesis
    using open_video_clears_caches [OF h] by (simp add: r)
qed

subsection \<open>Saving the video\<close>

lemmas save_defs =
  save_video_def apply_blur_def lookup_idx_def vw_write_def vw_release_def upto.simps

text \<open>
  C3.  The claim is that \<open>save_video\<close> returns \<open>False\<close> and writes nothing when the sink
  cannot be opened.  On the two-frame source, with a sink that does not open,
  \<open>save_video\<close> returns \<open>True\<close> after it has passed both frames to \<open>write()\<close>.
\<close>

theorem save_video_unopened_sink_returns_true:
  "fst (save_video env_two ''out.mp4'' None vp_on) = Return True
   \<and> snd (snd (save_video env_two ''out.mp4'' None vp_on))
       = Some \<lparr>vw_opened = False, vw_written = [frame_a, frame_b], vw_released = True\<rparr>"
  by (simp add: vp_on_def save_defs example_defs)

lemma same_source_refl: "same_source vp vp"
  by (simp add: same_source_def)

lemma same_source_trans: "same_source a b \<Longrightarrow> same_source b c \<Longrightarrow> same_source a c"
  by (simp add: same_source_def)

lemma same_source_blur_manager: "same_source a b \<Longrightarrow> same_source a (b\<lparr>blur_manager := bm\<rparr>)"
  by (simp add: same_source_def)

lemma get_frame_same_source: "same_source vp (snd (get_frame e i vp))"
  by (auto simp: same_source_def get_frame_def cap_read_def cap_set_pos_def run_detector_def Let_def
      split: sum.splits option.splits)

lemma get_frame_same_sourceD: "get_frame e i vp = (r, vp1) \<Longrightarrow> same_source vp vp1"
  using get_frame_same_source[of vp e i] by simp

lemma save_loop_same_source: "same_source vp (fst (snd (save_loop e cb is vp out)))"
proof (induction "is" arbitrary: vp out)
  case Nil
  show ?case by (simp add: same_source_refl)
next
  case (Cons i "is")
  obtain r vp1 where g: "get_frame e i vp = (r, vp1)"
    by (cases "get_frame e i vp")
  then have s1: "same_source vp vp1"
    by (rule get_frame_same_sourceD)
  show ?case
  proof (cases r)
    case (Raise ex)
    with g s1 show ?thesis by simp
  next
    case (Return fo)
    show ?thesis
    proof (cases fo)
      case None
      with g Return same_source_trans[OF s1 Cons.IH[of vp1 out]] show ?thesis by simp
    next
      case (Some frame)
      obtain rb bm1 where ab:
        "apply_blur e frame (case detection_results vp1 i of Some d \<Rightarrow> d | None \<Rightarrow> None)
           (Some i) (blur_manager vp1) = (rb, bm1)"
        by (cases "apply_blur e frame (case detection_results vp1 i of Some d \<Rightarrow> d | None \<Rightarrow> None)
           (Some i) (blur_manager vp1)")
      have s2: "same_source vp (vp1\<lparr>blur_manager := bm1\<rparr>)"
        using s1 by (rule same_source_blur_manager)
      note ih = same_source_trans[OF s2 Cons.IH[of "vp1\<lparr>blur_manager := bm1\<rparr>"]]
      show ?thesis
        using g Return Some ab s2 ih
        by (cases cb; cases rb) (simp_all add: Let_def split: option.splits)
    qed
  qed
qed

lemma get_frame_sets_idx:
  "cap vp = Some c \<Longrightarrow> cap_opened c \<Longrightarrow> 0 \<le> i \<Longrightarrow> i < frame_count vp \<Longrightarrow> cap_frames c i = Some fr \<Longrightarrow>
   current_frame_idx (snd (get_frame e i vp)) = i"
  by (auto simp: get_frame_def cap_read_def cap_set_pos_def run_detector_def Let_def
      split: sum.splits option.splits)

lemma same_source_get_frame_idx:
  assumes "same_source vp vp1" "cap vp = Some c" "cap_opened c" "0 \<le> i" "i < frame_count vp"
    "cap_frames c i = Some fr"
  shows "current_frame_idx (snd (get_frame e i vp1)) = i"
proof -
  from assms(1,2) obtain c1 where c1: "cap vp1 = Some c1" "cap_opened c1 = cap_opened c"
    "cap_frames c1 = cap_frames c" and fc: "frame_count vp1 = frame_count vp"
    by (auto simp: same_source_def)
  show ?thesis
    using get_frame_sets_idx[OF c1(1), of i fr e] assms c1 fc by simp
qed

text \<open>
  C7, the claim as stated: on the source whose first frame does not decode, the processor
  is at index 0 after \<open>open_video\<close>; \<open>save_video\<close> completes normally and leaves the
  processor at index 1, because the read of frame 0 in the \<open>finally\<close> block fails.
\<close>

theorem save_video_position_not_restored:
  "fst (open_video env_bad_first ''in.mp4'' (init_video_processor init_blur_manager)) = Return True
   \<and> current_frame_idx vp_bad_first = 0
   \<and> fst (save_video env_bad_first ''out.mp4'' None vp_bad_first) = Return True
   \<and> current_frame_idx (fst (snd (save_video env_bad_first ''out.mp4'' None vp_bad_first))) = 1"
  by (simp add: vp_bad_first_def env_bad_first_def cap_bad_first_def save_defs example_defs)

lemma save_video_with_sink:
  assumes "cap vp = Some c" "fps vp = Some f" "width vp = Some w" "height vp = Some h"
  shows "\<exists>out. snd (snd (save_video e output_path cb vp)) = Some out \<and> vw_released out
           \<and> (cap_opened c \<and> 0 \<le> current_frame_idx vp \<and> current_frame_idx vp < frame_count vp
                \<and> cap_frames c (current_frame_idx vp) \<noteq> None \<longrightarrow>
              current_frame_idx (fst (snd (save_video e output_path cb vp))) = current_frame_idx vp)"
proof -
  let ?out = "\<lparr>vw_opened = writer_opens e output_path f (w, h), vw_written = [], vw_released = False\<rparr>"
  obtain r vp1 out1 where l: "save_loop e cb [0..frame_count vp - 1] vp ?out = (r, vp1, out1)"
    by (cases "save_loop e cb [0..frame_count vp - 1] vp ?out")
  obtain r2 vp2 where g: "get_frame e (current_frame_idx vp) vp1 = (r2, vp2)"
    by (cases "get_frame e (current_frame_idx vp) vp1")
  have s: "same_source vp vp1"
    using save_loop_same_source[of vp e cb "[0..frame_count vp - 1]" ?out] l by simp
  have res: "save_video e output_path cb vp =
      (case r2 of Raise ex \<Rightarrow> Raise ex
       | Return x \<Rightarrow> (case r of Raise ex \<Rightarrow> Raise ex | Return u \<Rightarrow> Return True),
       vp2, Some (vw_release out1))"
    using assms l g by (simp add: save_video_def Let_def split: result.splits)
  have rel: "vw_released (vw_release out1)"
    by (simp add: vw_release_def)
  have pos: "current_frame_idx vp2 = current_frame_idx vp"
    if "cap_opened c \<and> 0 \<le> current_frame_idx vp \<and> current_frame_idx vp < frame_count vp
        \<and> cap_frames c (current_frame_idx vp) \<noteq> None"
  proof -
    from that obtain fr where "cap_frames c (current_frame_idx vp) = Some fr"
      by auto
    with that same_source_get_frame_idx[OF s assms(1), of "current_frame_idx vp" fr e] g
    show ?thesis by simp
  qed
  show ?thesis
    using res rel pos by simp
qed

lemma save_video_without_sink:
  assumes "cap vp = None \<or> fps vp = None \<or> width vp = None \<or> height vp = None"
  shows "snd (save_video e output_path cb vp) = (vp, None)"
  using assms by (auto simp: save_video_def split: option.splits)

text \<open>
  C7, amended.  However \<open>save_video\<close> ends, by returning or by an exception raised in the
  loop over the frames or in the \<open>finally\<close> block, the sink has been released if the call
  got as far as constructing it (otherwise the processor is unchanged); and the processor
  is back at the frame index it had before the export whenever the source can supply the
  frame at that index, the position being restored by reading that frame again.
\<close>

theorem save_video_finally:
  "(case snd (snd (save_video e output_path cb vp)) of
      None \<Rightarrow> fst (snd (save_video e output_path cb vp)) = vp
    | Some out \<Rightarrow> vw_released out)
   \<and> (cap vp = Some c \<and> cap_opened c
        \<and> 0 \<le> current_frame_idx vp \<and> current_frame_idx vp < frame_count vp
        \<and> cap_frames c (current_frame_idx vp) \<noteq> None \<longrightarrow>
      current_frame_idx (fst (snd (save_video e output_path cb vp))) = current_frame_idx vp)"
proof (cases "cap vp = None \<or> fps vp = None \<or> width vp = None \<or> height vp = None")
  case True
  from save_video_without_sink[OF True, of e output_path cb] show ?thesis
    by simp
next
  case False
  then obtain c' f w h where some: "cap vp = Some c'" "fps vp = Some f" "width vp = Some w"
    "height vp = Some h"
    by auto
  from save_video_with_sink[OF some, of e output_path cb] some(1) show ?thesis
    by auto
qed

theorem save_video_finally_witness:
  "fst (save_video env_blur_fails ''out.mp4'' None vp_manual_1) = Raise BlurError
   \<and> snd (snd (save_video env_blur_fails ''out.mp4'' None vp_manual_1))
       = Some \<lparr>vw_opened = False, vw_written = [frame_a], vw_released = True\<rparr>
   \<and> current_frame_idx (fst (snd (save_video env_blur_fails ''out.mp4'' None vp_manual_1))) = 0"
proof -
  have h: "cap vp_manual_1 = Some (cap_two\<lparr>cap_pos := 1\<rparr>) \<and> cap_opened (cap_two\<lparr>cap_pos := 1\<rparr>)
           \<and> 0 \<le> current_frame_idx vp_manual_1 \<and> current_frame_idx vp_manual_1 < frame_count vp_manual_1
           \<and> cap_frames (cap_two\<lparr>cap_pos := 1\<rparr>) (current_frame_idx vp_manual_1) \<noteq> None"
    by (simp add: vp_manual_1_def vp_on_def example_defs)
  have v: "current_frame_idx vp_manual_1 = 0"
    by (simp add: vp_manual_1_def vp_on_def example_defs)
  have r: "fst (save_video env_blur_fails ''out.mp4'' None vp_manual_1) = Raise BlurError"
    "snd (snd (save_video env_blur_fails ''out.mp4'' None vp_manual_1))
       = Some \<lparr>vw_opened = False, vw_written = [frame_a], vw_released = True\<rparr>"
    by (simp_all add: vp_manual_1_def vp_on_def env_blur_fails_def add_manual_region_to_frame_def
        regions_at_def blur_region_def save_defs example_defs)
  have p: "current_frame_idx (fst (snd (save_video env_blur_fails ''out.mp4'' None vp_manual_1))) = 0"
    using save_video_finally [where e = env_blur_fails and output_path = "''out.mp4''" and cb = None
        and vp = vp_manual_1 and c = "cap_two\<lparr>cap_pos := 1\<rparr>", THEN conjunct2, THEN mp, OF h]
    by (simp only: v)
  from r p show ?thesis by simp
qed

section \<open>Properties of the compositor\<close>

lemma then_blur_simps:
  "then_blur e (Return fr) r = blur_region e r fr"
  "then_blur e (Raise ex) r = Raise ex"
  by (simp_all add: then_blur_def)

lemma foldl_then_blur_Raise: "foldl (then_blur e) (Raise ex) rs = Raise ex"
  by (induction rs) (simp_all add: then_blur_simps)

lemma blur_loop_foldl: "blur_loop e rs fr = foldl (then_blur e) (Return fr) rs"
proof (induction rs arbitrary: fr)
  case Nil
  show ?case by simp
next
  case (Cons r rs)
  show ?case
    by (cases "blur_region e r fr") (simp_all add: Cons.IH then_blur_simps foldl_then_blur_Raise)
qed

lemma blur_loop_append:
  "blur_loop e (xs @ ys) fr =
     (case blur_loop e xs fr of Raise ex \<Rightarrow> Raise ex | Return fr' \<Rightarrow> blur_loop e ys fr')"
  by (induction xs arbitrary: fr) (simp_all split: result.splits)

lemma apply_blur_value:
  "fst (apply_blur e fr df idx bm)
     = blur_loop e (regions_of (detected_regions bm) idx @ regions_of (manual_regions bm) idx) fr"
  by (cases idx)
     (auto simp: apply_blur_def blur_loop_append regions_of_def lookup_idx_def Let_def
       split: result.splits option.splits)

text \<open>
  One pass of the loop body on the store: it allocates, it changes no allocated array
  other than \<open>result\<close>, and at \<open>result\<close> it does what \<open>blur_region\<close> does on values.
\<close>

lemma blur_region_at_sound:
  assumes "blur_region_at e r res st = (r', st')" "res < next_free st"
  shows "next_free st \<le> next_free st'"
    and "\<And>a. a < next_free st \<Longrightarrow> a \<noteq> res \<Longrightarrow> cells st' a = cells st a"
    and "case r' of Return u \<Rightarrow> blur_region e r (cells st res) = Return (cells st' res)
                  | Raise ex \<Rightarrow> blur_region e r (cells st res) = Raise ex"
  using assms
  by (auto simp: blur_region_at_def blur_region_def alloc_def Let_def
      split: prod.splits sum.splits result.splits)

lemma blur_loop_at_sound:
  assumes "blur_loop_at e rs res st = (r', st')" "res < next_free st"
  shows "next_free st \<le> next_free st'
       \<and> (\<forall>a. a < next_free st \<longrightarrow> a \<noteq> res \<longrightarrow> cells st' a = cells st a)
       \<and> (case r' of Return u \<Rightarrow> blur_loop e rs (cells st res) = Return (cells st' res)
                    | Raise ex \<Rightarrow> blur_loop e rs (cells st res) = Raise ex)"
  using assms
proof (induction rs arbitrary: st)
  case Nil
  then show ?case by auto
next
  case (Cons r rs)
  obtain r1 st1 where b: "blur_region_at e r res st = (r1, st1)"
    by (cases "blur_region_at e r res st")
  note s = blur_region_at_sound[OF b Cons.prems(2)]
  show ?case
  proof (cases r1)
    case (Raise ex)
    with b Cons.prems s show ?thesis by auto
  next
    case (Return u)
    with b Cons.prems have l: "blur_loop_at e rs res st1 = (r', st')"
      by simp
    have lt: "res < next_free st1"
      using s(1) Cons.prems(2) by simp
    note ih = Cons.IH[OF l lt]
    have eq: "blur_region e r (cells st res) = Return (cells st1 res)"
      using s(3) Return by simp
    show ?thesis
      using ih s(1) s(2) eq by (auto split: result.splits)
  qed
qed

text \<open>
  C9.  \<open>apply_blur\<close> changes no array that existed before the call, the input frame among
  them: what it returns is the address of a new array.  The contents of that array are the
  input frame with the automatic regions of the frame index blurred first and the manual
  regions after them, each list in its order and each region blurred in the frame that the
  regions before it have produced, so that a pixel under several regions is blurred once
  for each of them in that sequence.  An exception of the blur leaves \<open>apply_blur\<close> exactly
  when that sequence raises it.  The rendering on frame values, \<open>apply_blur\<close> as the rest of
  the program uses it, computes the same frame and the same manager.
\<close>

theorem apply_blur_at_compositor:
  assumes "apply_blur_at e frame faces frame_idx bm st = (r, bm', st')"
  shows "(\<forall>a. a < next_free st \<longrightarrow> cells st' a = cells st a)
       \<and> (case r of
            Return result \<Rightarrow>
              result = next_free st
              \<and> Return (cells st' result)
                  = render_spec e (regions_of (detected_regions bm) frame_idx)
                      (regions_of (manual_regions bm) frame_idx) (cells st frame)
          | Raise ex \<Rightarrow>
              render_spec e (regions_of (detected_regions bm) frame_idx)
                (regions_of (manual_regions bm) frame_idx) (cells st frame) = Raise ex)
       \<and> fst (apply_blur e (cells st frame) faces frame_idx bm)
           = (case r of Return result \<Rightarrow> Return (cells st' result) | Raise ex \<Rightarrow> Raise ex)
       \<and> snd (apply_blur e (cells st frame) faces frame_idx bm) = bm'"
proof -
  let ?res = "next_free st"
  let ?st0 = "snd (alloc (cells st frame) st)"
  let ?auto = "regions_of (detected_regions bm) frame_idx"
  let ?manual = "regions_of (manual_regions bm) frame_idx"
  have st0: "next_free ?st0 = Suc ?res" "cells ?st0 ?res = cells st frame"
    "\<And>a. a < ?res \<Longrightarrow> cells ?st0 a = cells st a"
    by (simp_all add: alloc_def)
  have lt0: "?res < next_free ?st0"
    by (simp add: st0)
  obtain r1 st1 where l1: "blur_loop_at e ?auto ?res ?st0 = (r1, st1)"
    by (cases "blur_loop_at e ?auto ?res ?st0")
  note s1 = blur_loop_at_sound[OF l1 lt0]
  have lt1: "?res < next_free st1"
    using s1 st0 by simp
  obtain r2 st2 where l2: "blur_loop_at e ?manual ?res st1 = (r2, st2)"
    by (cases "blur_loop_at e ?manual ?res st1")
  note s2 = blur_loop_at_sound[OF l2 lt1]
  have run: "apply_blur_at e frame faces frame_idx bm st =
      (case r1 of Raise ex \<Rightarrow> (Raise ex, bm', st1)
       | Return u \<Rightarrow> (case r2 of Raise ex \<Rightarrow> (Raise ex, bm', st2)
                      | Return u' \<Rightarrow> (Return ?res, bm', st2)))"
    and bm': "bm' = (case frame_idx of None \<Rightarrow> bm | Some i \<Rightarrow> bm\<lparr>bm_current_frame_idx := i\<rparr>)"
    using assms l1 l2
    by (auto simp: apply_blur_at_def alloc_def regions_of_def lookup_idx_def Let_def
        split: option.splits result.splits prod.splits)
  have val: "fst (apply_blur e (cells st frame) faces frame_idx bm)
      = (case blur_loop e ?auto (cells st frame) of Raise ex \<Rightarrow> Raise ex
         | Return fr' \<Rightarrow> blur_loop e ?manual fr')"
    by (simp add: apply_blur_value blur_loop_append)
  have spec: "render_spec e ?auto ?manual (cells st frame)
      = (case blur_loop e ?auto (cells st frame) of Raise ex \<Rightarrow> Raise ex
         | Return fr' \<Rightarrow> blur_loop e ?manual fr')"
    unfolding render_spec_def blur_loop_foldl[symmetric] by (rule blur_loop_append)
  have mgr: "snd (apply_blur e (cells st frame) faces frame_idx bm) = bm'"
    by (simp add: apply_blur_manager bm')
  show ?thesis
  proof (cases r1)
    case (Raise ex)
    with run assms have "r = Raise ex" "st' = st1"
      by simp_all
    with Raise s1 st0 show ?thesis
      by (simp add: val spec mgr)
  next
    case r1: (Return u)
    show ?thesis
    proof (cases r2)
      case (Raise ex)
      with r1 run assms have "r = Raise ex" "st' = st2"
        by simp_all
      with Raise r1 s1 s2 st0 show ?thesis
        by (simp add: val spec mgr)
    next
      case (Return u')
      with r1 run assms have "r = Return ?res" "st' = st2"
        by simp_all
      with Return r1 s1 s2 st0 show ?thesis
        by (simp add: val spec mgr)
    qed
  qed
qed

text \<open>The example: the pixel under both regions goes from 1 to 11 and then to 112.\<close>

lemma blur_region_example_auto:
  "blur_region env_order (0, 0, 1, 1, 1, 3) frame_a = Return [[11, 2], [3, 4]]"
proof -
  have g: "get_slice frame_a 0 1 0 1 = [[1]]"
    by (simp add: get_slice_def py_slice_def slice_index_def frame_a_def)
  have s: "set_slice frame_a 0 1 0 1 [[11]] = Return [[11, 2], [3, 4]]"
    by (simp add: set_slice_def set_row_def get_slice_def py_slice_def slice_index_def frame_a_def)
  show ?thesis
    by (simp add: blur_region_def odd_ksize_def g s env_order_def env_two_def)
qed

lemma blur_region_example_manual:
  "blur_region env_order (0, 0, 1, 1, 2, 3) [[11, 2], [3, 4]] = Return [[112, 2], [3, 4]]"
proof -
  have g: "get_slice [[11, 2], [3, 4]] 0 1 0 1 = [[11]]"
    by (simp add: get_slice_def py_slice_def slice_index_def)
  have s: "set_slice [[11, 2], [3, 4]] 0 1 0 1 [[112]] = Return [[112, 2], [3, 4]]"
    by (simp add: set_slice_def set_row_def get_slice_def py_slice_def slice_index_def)
  show ?thesis
    by (simp add: blur_region_def odd_ksize_def g s env_order_def env_two_def)
qed

lemma render_spec_example:
  "render_spec env_order (regions_of (detected_regions bm_overlap) (Some 0))
     (regions_of (manual_regions bm_overlap) (Some 0)) (cells store_one 0)
   = Return [[112, 2], [3, 4]]"
  by (simp add: render_spec_def then_blur_def regions_of_def lookup_idx_def
      bm_overlap_def init_blur_manager_def store_one_def
      blur_region_example_auto blur_region_example_manual)

theorem apply_blur_at_compositor_witness:
  "fst (apply_blur_at env_order 0 None (Some 0) bm_overlap store_one) = Return 1
   \<and> cells (snd (snd (apply_blur_at env_order 0 None (Some 0) bm_overlap store_one))) 0 = frame_a
   \<and> cells (snd (snd (apply_blur_at env_order 0 None (Some 0) bm_overlap store_one))) 1 = [[112, 2], [3, 4]]"
proof -
  let ?X = "apply_blur_at env_order 0 None (Some 0) bm_overlap store_one"
  have h: "?X = (fst ?X, fst (snd ?X), snd (snd ?X))"
    by simp
  have n: "next_free store_one = 1" "cells store_one 0 = frame_a"
    by (simp_all add: store_one_def)
  show ?thesis
    using apply_blur_at_compositor [OF h] render_spec_example
    by (cases "fst ?X") (simp_all add: n)
qed

section \<open>The detections handed to the compositor\<close>












end
